theory Spec2Isabelle
  imports Main "HOL-Library.Sublist" "HOL-Library.Word"
begin

unbundle bit_operations_syntax

section \<open>Strings\<close>

text \<open>
  A Go string is a sequence of bytes, here a \<^typ>\<open>string\<close>. \<open>strings.Join\<close> and
  \<open>strings.Fields\<close> belong to Go's standard library; they are written out as the library
  documents them.
\<close>

fun strings_Join :: "string list \<Rightarrow> string \<Rightarrow> string" where
  "strings_Join [] sep = []"
| "strings_Join [x] sep = x"
| "strings_Join (x # y # ys) sep = x @ sep @ strings_Join (y # ys) sep"

text \<open>
  The white space of \<open>unicode.IsSpace\<close>, each code point in its UTF-8 encoding: tab, line
  feed, vertical tab, form feed, carriage return, space, U+0085, U+00A0, U+1680,
  U+2000 to U+200A, U+2028, U+2029, U+202F, U+205F and U+3000. Every encoding starts with
  an ASCII byte or a lead byte, which no other code point's encoding contains after its
  first byte, so that a byte-wise scan finds exactly the white space a rune-wise scan finds.
\<close>

definition white_space :: "string list" where
  "white_space =
    [[CHR 0x09], [CHR 0x0A], [CHR 0x0B], [CHR 0x0C], [CHR 0x0D], [CHR 0x20],
     [CHR 0xC2, CHR 0x85], [CHR 0xC2, CHR 0xA0],
     [CHR 0xE1, CHR 0x9A, CHR 0x80],
     [CHR 0xE2, CHR 0x80, CHR 0x80], [CHR 0xE2, CHR 0x80, CHR 0x81],
     [CHR 0xE2, CHR 0x80, CHR 0x82], [CHR 0xE2, CHR 0x80, CHR 0x83],
     [CHR 0xE2, CHR 0x80, CHR 0x84], [CHR 0xE2, CHR 0x80, CHR 0x85],
     [CHR 0xE2, CHR 0x80, CHR 0x86], [CHR 0xE2, CHR 0x80, CHR 0x87],
     [CHR 0xE2, CHR 0x80, CHR 0x88], [CHR 0xE2, CHR 0x80, CHR 0x89],
     [CHR 0xE2, CHR 0x80, CHR 0x8A],
     [CHR 0xE2, CHR 0x80, CHR 0xA8], [CHR 0xE2, CHR 0x80, CHR 0xA9],
     [CHR 0xE2, CHR 0x80, CHR 0xAF],
     [CHR 0xE2, CHR 0x81, CHR 0x9F],
     [CHR 0xE3, CHR 0x80, CHR 0x80]]"

text \<open>The number of bytes of the white space a string starts with, 0 when it starts with none.\<close>

definition space_width :: "string \<Rightarrow> nat" where
  "space_width s = (case find (\<lambda>w. prefix w s) white_space of None \<Rightarrow> 0 | Some w \<Rightarrow> length w)"

text \<open>
  \<open>strings.Fields\<close>: the maximal runs of bytes between white space, in order.
  \<open>fields_from k cur s\<close> scans \<open>s\<close> with the field \<open>cur\<close> under construction and \<open>k\<close>
  bytes of a white-space code point still to pass over.
\<close>

fun fields_from :: "nat \<Rightarrow> string \<Rightarrow> string \<Rightarrow> string list" where
  "fields_from k cur [] = (if cur = [] then [] else [cur])"
| "fields_from k cur (c # cs) =
    (if 0 < k then fields_from (k - 1) cur cs
     else case space_width (c # cs) of
        0 \<Rightarrow> fields_from 0 (cur @ [c]) cs
      | Suc n \<Rightarrow> (if cur = [] then [] else [cur]) @ fields_from n [] cs)"

definition strings_Fields :: "string \<Rightarrow> string list" where
  "strings_Fields s = fields_from 0 [] s"

section \<open>The pattern record and its decoding\<close>

text \<open>The struct \<open>pattern\<close> of the source.\<close>

record pattern =
  Flags :: "string list"
  Pattern :: string
  Patterns :: "string list"
  Engine :: string

text \<open>\<open>pattern{}\<close>, the zero record.\<close>

definition zero_pattern :: pattern where
  "zero_pattern = \<lparr>Flags = [], Pattern = [], Patterns = [], Engine = []\<rparr>"

text \<open>
  A JSON value. Decoded into an \<open>interface{}\<close>, as the field \<open>Flags\<close> of \<open>aux\<close> is, it keeps
  its shape (nil, bool, float64, string, \<open>[]interface{}\<close>, \<open>map[string]interface{}\<close>), so
  the same datatype stands for the decoded value; a number keeps its literal, which the
  program never reads.
\<close>

datatype json =
    JNull
  | JBool bool
  | JNum string
  | JStr string
  | JArr "json list"
  | JObj "(string \<times> json) list"

text \<open>
  The top-level object of a record file, as the value each of the four keys holds
  (\<open>None\<close>: the key is absent). Other keys are ignored by \<open>encoding/json\<close>. An object
  that repeats one of the four keys is outside this model.
\<close>

record members =
  flags_member :: "json option"
  pattern_member :: "json option"
  patterns_member :: "json option"
  engine_member :: "json option"

text \<open>
  What a record file holds: no JSON value at all (empty, truncated or otherwise ill-formed
  text), the literal \<open>null\<close>, a value that is neither an object nor \<open>null\<close>, or an object.
\<close>

datatype document =
    Ill_formed
  | Top_null
  | Top_scalar_or_array
  | Top_object members

datatype error =
    SyntaxError
  | UnmarshalTypeError
  | ReadError
  | NilPointerDereference

text \<open>
  \<open>encoding/json\<close> on a string field of a fresh struct: a JSON string is stored, \<open>null\<close> and
  an absent key leave the zero value, any other value is an \<open>UnmarshalTypeError\<close> (\<open>None\<close>).
\<close>

fun decode_string :: "json option \<Rightarrow> string option" where
  "decode_string None = Some []"
| "decode_string (Some JNull) = Some []"
| "decode_string (Some (JStr s)) = Some s"
| "decode_string (Some _) = None"

text \<open>The same on a \<open>[]string\<close> field: every element is decoded as a string field is.\<close>

fun decode_strings :: "json list \<Rightarrow> string list option" where
  "decode_strings [] = Some []"
| "decode_strings (v # vs) =
    (case decode_string (Some v) of
       None \<Rightarrow> None
     | Some s \<Rightarrow> (case decode_strings vs of None \<Rightarrow> None | Some ss \<Rightarrow> Some (s # ss)))"

fun decode_string_list :: "json option \<Rightarrow> string list option" where
  "decode_string_list None = Some []"
| "decode_string_list (Some JNull) = Some []"
| "decode_string_list (Some (JArr vs)) = decode_strings vs"
| "decode_string_list (Some _) = None"

text \<open>
  The anonymous struct \<open>aux\<close> of \<open>UnmarshalJSON\<close>: its own field \<open>Flags\<close> of type
  \<open>interface{}\<close> (nil is \<^const>\<open>JNull\<close>) hides the field \<open>Flags\<close> of the embedded \<open>*Alias\<close>,
  which points to the receiver.
\<close>

record aux =
  aux_Flags :: json
  Alias :: pattern

text \<open>
  \<open>json.Unmarshal(data, &aux)\<close> with the receiver a fresh \<open>pattern{}\<close> (line 105, the only
  record the program decodes into). \<open>aux\<close> is itself a pointer, so the literal \<open>null\<close> sets
  it to nil (\<open>Inr None\<close>) without an error. The key \<open>flags\<close> goes to the \<open>interface{}\<close>, which
  takes any value; the three other keys go through \<open>*Alias\<close> to the receiver.
\<close>

fun json_Unmarshal :: "document \<Rightarrow> error + aux option" where
  "json_Unmarshal Ill_formed = Inl SyntaxError"
| "json_Unmarshal Top_null = Inr None"
| "json_Unmarshal Top_scalar_or_array = Inl UnmarshalTypeError"
| "json_Unmarshal (Top_object m) =
    (case (decode_string (pattern_member m), decode_string_list (patterns_member m),
           decode_string (engine_member m)) of
       (Some p, Some ps, Some e) \<Rightarrow>
         Inr (Some \<lparr>aux_Flags = (case flags_member m of None \<Rightarrow> JNull | Some v \<Rightarrow> v),
                    Alias = \<lparr>Flags = [], Pattern = p, Patterns = ps, Engine = e\<rparr>\<rparr>)
     | _ \<Rightarrow> Inl UnmarshalTypeError)"

text \<open>The loop of lines 41 to 45: the elements that are strings, in order.\<close>

fun string_elements :: "json list \<Rightarrow> string list" where
  "string_elements [] = []"
| "string_elements (JStr s # fs) = s # string_elements fs"
| "string_elements (_ # fs) = string_elements fs"

text \<open>
  The type switch of lines 34 to 47 on \<open>aux.Flags\<close>, from the receiver \<open>p\<close> to the
  receiver afterwards. It has no default case: any other value leaves \<open>p\<close> as it is.
\<close>

fun switch_Flags :: "json \<Rightarrow> pattern \<Rightarrow> pattern" where
  "switch_Flags (JStr v) p = (if v \<noteq> [] then p\<lparr>Flags := strings_Fields v\<rparr> else p)"
| "switch_Flags (JArr v) p = p\<lparr>Flags := string_elements v\<rparr>"
| "switch_Flags _ p = p"

text \<open>
  \<open>pattern.UnmarshalJSON\<close> (lines 23 to 49) on the fresh record. With \<open>aux\<close> nil, reading
  \<open>aux.Flags\<close> at line 34 is a nil pointer dereference.
\<close>

definition UnmarshalJSON :: "document \<Rightarrow> error + pattern" where
  "UnmarshalJSON data =
    (case json_Unmarshal data of
       Inl err \<Rightarrow> Inl err
     | Inr None \<Rightarrow> Inl NilPointerDereference
     | Inr (Some a) \<Rightarrow> Inr (switch_Flags (aux_Flags a) (Alias a)))"

section \<open>Resolution and command synthesis\<close>

text \<open>
  Standard-library functions whose results depend on tables and rules outside this
  program are taken as they come: \<open>filepath.Join\<close> on two elements, the verb \<open>%q\<close> of
  \<open>fmt\<close> on a string, the indented encoding of a record by \<open>json.Encoder\<close>, and the first
  JSON value that \<open>json.Decoder\<close> reads from a file's bytes.
\<close>

record library =
  filepath_Join :: "string \<Rightarrow> string \<Rightarrow> string"
  quoted :: "string \<Rightarrow> string"
  json_Encode :: "pattern \<Rightarrow> string"
  json_Decode :: "string \<Rightarrow> document"

text \<open>Everything a run of \<open>main\<close> in search mode can end in.\<close>

datatype outcome =
    DirectoryResolutionFailure
  | NoSuchPattern
  | MalformedRecord string error
  | EmptyPattern string
  | Panicked
  | Printed string
  | Executed string "string list"

text \<open>
  Lines 113 to 120: the record after resolution, or the message of line 116 about the
  file \<open>filename\<close>.
\<close>

definition resolve :: "string \<Rightarrow> pattern \<Rightarrow> outcome + pattern" where
  "resolve filename pat =
    (if Pattern pat = [] then
       (if length (Patterns pat) = 0 then Inl (EmptyPattern filename)
        else Inr (pat\<lparr>Pattern := ''('' @ strings_Join (Patterns pat) ''|'' @ '')''\<rparr>))
     else Inr pat)"

text \<open>Lines 122 to 125.\<close>

definition operator_of :: "pattern \<Rightarrow> string" where
  "operator_of pat = (if Engine pat = [] then ''ugrep'' else Engine pat)"

text \<open>The loops of lines 131 to 133 and 147 to 149.\<close>

definition append_patterns :: "string list \<Rightarrow> string list \<Rightarrow> string list" where
  "append_patterns args ps = foldl (\<lambda>args p. args @ [''-e'', p]) args ps"

text \<open>
  Lines 128 to 141, the text that dump mode prints; \<open>q\<close> renders a string under the verb
  \<open>%q\<close>.
\<close>

definition dump_line :: "(string \<Rightarrow> string) \<Rightarrow> string \<Rightarrow> pattern \<Rightarrow> string \<Rightarrow> string" where
  "dump_line q operator pat files =
    (if operator = ''ugrep'' \<and> 0 < length (Patterns pat) then
       (let args = [];
            args = args @ Flags pat;
            args = append_patterns args (Patterns pat);
            args = (if files \<noteq> [] then args @ [files] else args)
        in operator @ '' '' @ strings_Join args '' '' @ [CHR 0x0A])
     else operator @ '' '' @ strings_Join (Flags pat) '' '' @ '' '' @ q (Pattern pat)
            @ '' '' @ files @ [CHR 0x0A])"

text \<open>
  Lines 144 to 159, the arguments of the command; \<open>piped\<close> is what \<open>stdinIsPipe()\<close>
  returns.
\<close>

definition command_args :: "bool \<Rightarrow> string \<Rightarrow> pattern \<Rightarrow> string \<Rightarrow> string list" where
  "command_args piped operator pat files =
    (let args = [] in
     if operator = ''ugrep'' \<and> 0 < length (Patterns pat) then
       (let args = args @ Flags pat;
            args = append_patterns args (Patterns pat)
        in if \<not> piped \<and> files \<noteq> [] then args @ [files] else args)
     else
       (let args = args @ Flags pat;
            args = args @ [Pattern pat]
        in if \<not> piped \<and> files \<noteq> [] then args @ [files] else args))"

text \<open>
  \<open>stdinIsPipe\<close> (lines 237 to 240) on the mode bits of standard input;
  \<open>os.ModeCharDevice\<close> is bit 21 of the 32-bit \<open>FileMode\<close>.
\<close>

definition ModeCharDevice :: "32 word" where
  "ModeCharDevice = push_bit 21 1"

definition stdinIsPipe :: "32 word \<Rightarrow> bool" where
  "stdinIsPipe mode = (mode AND ModeCharDevice = 0)"

text \<open>
  Lines 127 to 165. \<open>stdin\<close> is the mode that \<open>os.Stdin.Stat()\<close> reports, \<open>None\<close> when it
  fails: then \<open>stat\<close> is nil and \<open>stat.Mode()\<close> panics. Both branches of the real run call
  \<open>stdinIsPipe\<close>, dump mode never does. What \<open>cmd.Run()\<close> returns is dropped.
\<close>

definition synthesize ::
  "(string \<Rightarrow> string) \<Rightarrow> bool \<Rightarrow> 32 word option \<Rightarrow> string \<Rightarrow> string \<Rightarrow> pattern \<Rightarrow> outcome" where
  "synthesize q dumpMode stdin files operator pat =
    (if dumpMode then Printed (dump_line q operator pat files)
     else case stdin of
        None \<Rightarrow> Panicked
      | Some mode \<Rightarrow> Executed operator (command_args (stdinIsPipe mode) operator pat files))"

text \<open>Lines 113 to 165: what \<open>main\<close> does with the decoded record \<open>pat\<close>.\<close>

definition run_record ::
  "(string \<Rightarrow> string) \<Rightarrow> string \<Rightarrow> bool \<Rightarrow> 32 word option \<Rightarrow> string \<Rightarrow> pattern \<Rightarrow> outcome" where
  "run_record q filename dumpMode stdin files pat =
    (case resolve filename pat of
       Inl failure \<Rightarrow> failure
     | Inr pat' \<Rightarrow> synthesize q dumpMode stdin files (operator_of pat') pat')"

text \<open>Lines 86 to 89.\<close>

definition default_files :: "string \<Rightarrow> string" where
  "default_files files = (if files = [] then ''.'' else files)"

section \<open>The pattern store\<close>

text \<open>
  The host of a run: the home directory that \<open>user.Current()\<close> reports (\<open>None\<close> when it
  fails), the paths that exist with what they hold, the error that creating a file at a
  free path meets (a missing parent directory, a permission), the paths at which a write
  fails, and the mode of standard input.
\<close>

datatype node = Directory | File string

datatype os_error = EEXIST | ENOENT | EACCES

record host =
  HomeDir :: "string option"
  nodes :: "string \<rightharpoonup> node"
  create_error :: "string \<Rightarrow> os_error option"
  write_fails :: "string \<Rightarrow> bool"
  stdin_mode :: "32 word option"

text \<open>
  \<open>getPatternDir\<close> (lines 168 to 179). \<open>os.Stat\<close> reports a path that does not exist with
  an error for which \<open>os.IsNotExist\<close> holds.
\<close>

definition getPatternDir :: "library \<Rightarrow> host \<Rightarrow> unit + string" where
  "getPatternDir L h =
    (case HomeDir h of
       None \<Rightarrow> Inl ()
     | Some home \<Rightarrow>
         (let path = filepath_Join L home ''.config/gf'' in
          if nodes h path \<noteq> None then Inr path
          else Inr (filepath_Join L home ''.gf'')))"

datatype save_error =
    NameEmpty
  | PatternEmpty
  | PatternDirUnknown
  | CreateFailed os_error
  | WriteFailed


text \<open>\<open>os.OpenFile(path, os.O_RDWR|os.O_CREATE|os.O_EXCL, 0666)\<close>: the host with the new, empty file.\<close>

definition os_OpenFile_excl :: "host \<Rightarrow> string \<Rightarrow> os_error + host" where
  "os_OpenFile_excl h path =
    (if nodes h path \<noteq> None then Inl EEXIST
     else case create_error h path of
        Some e \<Rightarrow> Inl e
      | None \<Rightarrow> Inr (h\<lparr>nodes := (nodes h)(path \<mapsto> File [])\<rparr>))"

text \<open>
  \<open>savePattern\<close> (lines 181 to 214): the error it returns, if any, and the host
  afterwards. The encoder makes one write of the whole text; a write that fails leaves
  the new file empty.
\<close>

definition savePattern :: "library \<Rightarrow> host \<Rightarrow> string \<Rightarrow> string \<Rightarrow> string \<Rightarrow> save_error option \<times> host" where
  "savePattern L h name flags pat =
    (if name = [] then (Some NameEmpty, h)
     else if pat = [] then (Some PatternEmpty, h)
     else
       (let p = \<lparr>Flags = strings_Fields flags, Pattern = pat, Patterns = [], Engine = []\<rparr> in
        case getPatternDir L h of
          Inl _ \<Rightarrow> (Some PatternDirUnknown, h)
        | Inr patDir \<Rightarrow>
            (let path = filepath_Join L patDir (name @ ''.json'') in
             case os_OpenFile_excl h path of
               Inl e \<Rightarrow> (Some (CreateFailed e), h)
             | Inr h' \<Rightarrow>
                 if write_fails h' path then (Some WriteFailed, h')
                 else (None, h'\<lparr>nodes := (nodes h')(path \<mapsto> File (json_Encode L p))\<rparr>))))"

section \<open>Search mode\<close>

text \<open>
  Lines 85 to 165 of \<open>main\<close>: the run on the pattern name and the target path of the
  command line. \<open>os.Open\<close> opens a directory too; reading it fails.
\<close>

definition search :: "library \<Rightarrow> host \<Rightarrow> bool \<Rightarrow> string \<Rightarrow> string \<Rightarrow> outcome" where
  "search L h dumpMode patName files0 =
    (let files = default_files files0 in
     case getPatternDir L h of
       Inl _ \<Rightarrow> DirectoryResolutionFailure
     | Inr patDir \<Rightarrow>
         (let filename = filepath_Join L patDir (patName @ ''.json'') in
          case nodes h filename of
            None \<Rightarrow> NoSuchPattern
          | Some Directory \<Rightarrow> MalformedRecord filename ReadError
          | Some (File bytes) \<Rightarrow>
              (case UnmarshalJSON (json_Decode L bytes) of
                 Inl NilPointerDereference \<Rightarrow> Panicked
               | Inl err \<Rightarrow> MalformedRecord filename err
               | Inr pat \<Rightarrow> run_record (quoted L) filename dumpMode (stdin_mode h) files pat)))"

section \<open>Predicates and sample values of the statements\<close>




text \<open>
  What \<open>%q\<close> prints for a string of printable ASCII without a double quote or a
  backslash: the string between double quotes.
\<close>

definition double_quoted :: "string \<Rightarrow> string" where
  "double_quoted s = [CHR 0x22] @ s @ [CHR 0x22]"

text \<open>\<open>filepath.Join\<close> on two elements that are clean already.\<close>

definition slash_join :: "string \<Rightarrow> string \<Rightarrow> string" where
  "slash_join dir name = dir @ ''/'' @ name"

text \<open>A library for the sample runs; the two JSON functions are not run by them.\<close>

definition sample_library :: library where
  "sample_library =
    \<lparr>filepath_Join = slash_join, quoted = double_quoted,
     json_Encode = (\<lambda>p. ''{}''), json_Decode = (\<lambda>bytes. Ill_formed)\<rparr>"


definition homeless_host :: host where
  "homeless_host =
    \<lparr>HomeDir = None, nodes = Map.empty,
     create_error = (\<lambda>path. None), write_fails = (\<lambda>path. False),
     stdin_mode = Some ModeCharDevice\<rparr>"

section \<open>Lemmas on the library functions\<close>

lemma append_patterns_concat:
  "append_patterns args ps = args @ concat (map (\<lambda>p. [''-e'', p]) ps)"
  unfolding append_patterns_def
  by (induction ps arbitrary: args) simp_all

lemma strings_Join_Cons: "strings_Join (p # ps) sep = p @ concat (map (\<lambda>x. sep @ x) ps)"
  by (induction ps arbitrary: p) simp_all

lemma operator_of_update [simp]: "operator_of (pat\<lparr>Pattern := s\<rparr>) = operator_of pat"
  by (simp add: operator_of_def)














lemma default_files_nonempty: "default_files files \<noteq> []"
  by (simp add: default_files_def)

text \<open>
  Search mode on a record file that is there and decodes is the run on the decoded
  record, with the target path defaulted.
\<close>

lemma search_decoded:
  assumes "getPatternDir L h = Inr patDir"
    and "nodes h (filepath_Join L patDir (patName @ ''.json'')) = Some (File bytes)"
    and "UnmarshalJSON (json_Decode L bytes) = Inr pat"
  shows "search L h dumpMode patName files0 =
    run_record (quoted L) (filepath_Join L patDir (patName @ ''.json'')) dumpMode (stdin_mode h)
      (default_files files0) pat"
  using assms by (simp add: search_def)

section \<open>Claims\<close>

text \<open>
  C1, as amended. For every record whose \<open>pattern\<close> is non-empty and which is not on the
  multi-pattern path (the engine is not the default one, or \<open>patterns\<close> is empty), the
  real run's argument vector is the flags in order, then \<open>pattern\<close> unchanged, then the
  target path if it is non-empty and standard input is not a pipe.
\<close>

theorem single_pattern_args:
  assumes "Pattern pat \<noteq> []"
    and "\<not> (operator_of pat = ''ugrep'' \<and> Patterns pat \<noteq> [])"
  shows "run_record q filename False (Some mode) files pat =
    Executed (operator_of pat)
      (Flags pat @ [Pattern pat] @ (if files \<noteq> [] \<and> \<not> stdinIsPipe mode then [files] else []))"
  using assms
  by (auto simp: run_record_def resolve_def synthesize_def command_args_def)

theorem single_pattern_args_witness:
  "Pattern \<lparr>Flags = [''-Hnr''], Pattern = ''TODO'', Patterns = [], Engine = []\<rparr> \<noteq> []
   \<and> \<not> (operator_of \<lparr>Flags = [''-Hnr''], Pattern = ''TODO'', Patterns = [], Engine = []\<rparr> = ''ugrep''
        \<and> Patterns \<lparr>Flags = [''-Hnr''], Pattern = ''TODO'', Patterns = [], Engine = []\<rparr> \<noteq> [])
   \<and> \<not> stdinIsPipe ModeCharDevice
   \<and> run_record double_quoted ''TODO.json'' False (Some ModeCharDevice) ''.''
        \<lparr>Flags = [''-Hnr''], Pattern = ''TODO'', Patterns = [], Engine = []\<rparr>
      = Executed ''ugrep'' [''-Hnr'', ''TODO'', ''.'']"
  using single_pattern_args [of "\<lparr>Flags = [''-Hnr''], Pattern = ''TODO'', Patterns = [], Engine = []\<rparr>"
      double_quoted "''TODO.json''" ModeCharDevice "''.''"]
  by (simp add: operator_of_def stdinIsPipe_def ModeCharDevice_def)

text \<open>
  C1 as stated fails on a record that has both \<open>pattern\<close> and \<open>patterns\<close> with the default
  engine: the command gets the \<open>-e\<close> pairs, and \<open>pattern\<close> is not among its arguments.
\<close>

theorem pattern_with_patterns_counterexample:
  "Pattern \<lparr>Flags = [''-n''], Pattern = ''TODO'', Patterns = [''foo''], Engine = []\<rparr> \<noteq> []
   \<and> \<not> stdinIsPipe ModeCharDevice
   \<and> run_record double_quoted ''x.json'' False (Some ModeCharDevice) ''.''
        \<lparr>Flags = [''-n''], Pattern = ''TODO'', Patterns = [''foo''], Engine = []\<rparr>
      = Executed ''ugrep'' [''-n'', ''-e'', ''foo'', ''.'']
   \<and> run_record double_quoted ''x.json'' False (Some ModeCharDevice) ''.''
        \<lparr>Flags = [''-n''], Pattern = ''TODO'', Patterns = [''foo''], Engine = []\<rparr>
      \<noteq> Executed ''ugrep'' [''-n'', ''TODO'', ''.'']"
  by (simp add: run_record_def resolve_def synthesize_def command_args_def operator_of_def
      append_patterns_def stdinIsPipe_def ModeCharDevice_def)

text \<open>
  C2. For every record with empty \<open>pattern\<close> and non-empty \<open>patterns\<close>, resolution gives
  the effective pattern \<open>(\<close>, the elements of \<open>patterns\<close> joined by \<open>|\<close>, \<open>)\<close>, and the
  engine is the field \<open>engine\<close> when it is non-empty, else \<open>ugrep\<close>; the run goes on
  with both.
\<close>

theorem alternation_and_engine:
  assumes "Pattern pat = []" and "Patterns pat \<noteq> []"
  shows "resolve filename pat =
      Inr (pat\<lparr>Pattern := ''('' @ strings_Join (Patterns pat) ''|'' @ '')''\<rparr>)
    \<and> operator_of pat = (if Engine pat \<noteq> [] then Engine pat else ''ugrep'')
    \<and> run_record q filename dumpMode stdin files pat =
        synthesize q dumpMode stdin files (if Engine pat \<noteq> [] then Engine pat else ''ugrep'')
          (pat\<lparr>Pattern := ''('' @ strings_Join (Patterns pat) ''|'' @ '')''\<rparr>)"
  using assms by (simp add: resolve_def operator_of_def run_record_def)

theorem alternation_and_engine_witness:
  "Pattern \<lparr>Flags = [], Pattern = [], Patterns = [''foo'', ''bar''], Engine = ''rg''\<rparr> = []
   \<and> Patterns \<lparr>Flags = [], Pattern = [], Patterns = [''foo'', ''bar''], Engine = ''rg''\<rparr> \<noteq> []
   \<and> resolve ''fb.json'' \<lparr>Flags = [], Pattern = [], Patterns = [''foo'', ''bar''], Engine = ''rg''\<rparr>
       = Inr \<lparr>Flags = [], Pattern = ''(foo|bar)'', Patterns = [''foo'', ''bar''], Engine = ''rg''\<rparr>
   \<and> operator_of \<lparr>Flags = [], Pattern = [], Patterns = [''foo'', ''bar''], Engine = ''rg''\<rparr> = ''rg''"
  using alternation_and_engine [of "\<lparr>Flags = [], Pattern = [], Patterns = [''foo'', ''bar''], Engine = ''rg''\<rparr>"
      "''fb.json''" double_quoted False None "''.''"]
  by simp

text \<open>
  C3. For every record with non-empty \<open>patterns\<close> and the default engine selected, the
  real run's argument vector is the flags in order, then \<open>-e\<close>, \<open>p\<close> for each \<open>p\<close> of
  \<open>patterns\<close> in order, then the target path if it is non-empty and standard input is not
  a pipe; with the target of the command line defaulted as \<open>main\<close> does, an empty
  target counts as \<open>.\<close>. The witness is the record with the patterns \<open>foo\<close>, \<open>bar\<close> and
  no target given.
\<close>

theorem multi_pattern_args:
  assumes "Patterns pat \<noteq> []" and "operator_of pat = ''ugrep''"
  shows "run_record q filename False (Some mode) files pat =
      Executed ''ugrep''
        (Flags pat @ concat (map (\<lambda>p. [''-e'', p]) (Patterns pat))
          @ (if files \<noteq> [] \<and> \<not> stdinIsPipe mode then [files] else []))
    \<and> run_record q filename False (Some mode) (default_files target) pat =
      Executed ''ugrep''
        (Flags pat @ concat (map (\<lambda>p. [''-e'', p]) (Patterns pat))
          @ (if \<not> stdinIsPipe mode then [if target = [] then ''.'' else target] else []))"
  using assms
  by (auto simp: run_record_def resolve_def synthesize_def command_args_def append_patterns_concat
      default_files_def)

theorem multi_pattern_args_witness:
  "Patterns \<lparr>Flags = [], Pattern = [], Patterns = [''foo'', ''bar''], Engine = []\<rparr> \<noteq> []
   \<and> operator_of \<lparr>Flags = [], Pattern = [], Patterns = [''foo'', ''bar''], Engine = []\<rparr> = ''ugrep''
   \<and> \<not> stdinIsPipe ModeCharDevice
   \<and> run_record double_quoted ''fb.json'' False (Some ModeCharDevice) (default_files [])
        \<lparr>Flags = [], Pattern = [], Patterns = [''foo'', ''bar''], Engine = []\<rparr>
      = Executed ''ugrep'' [''-e'', ''foo'', ''-e'', ''bar'', ''.'']"
  using multi_pattern_args [of "\<lparr>Flags = [], Pattern = [], Patterns = [''foo'', ''bar''], Engine = []\<rparr>"
      double_quoted "''fb.json''" ModeCharDevice "default_files []" "[]"]
  by (simp add: operator_of_def stdinIsPipe_def ModeCharDevice_def default_files_def)

text \<open>
  C4. For every record with both \<open>pattern\<close> and \<open>patterns\<close> empty, resolution fails with
  \<open>EmptyPattern\<close>, and that is where the run ends, in dump mode and in a real run alike:
  nothing is printed and no command is run.
\<close>

theorem no_pattern_aborts:
  assumes "Pattern pat = []" and "Patterns pat = []"
  shows "resolve filename pat = Inl (EmptyPattern filename)
    \<and> run_record q filename dumpMode stdin files pat = EmptyPattern filename"
  using assms by (simp add: resolve_def run_record_def)

theorem no_pattern_aborts_witness:
  "Pattern zero_pattern = [] \<and> Patterns zero_pattern = []
   \<and> resolve ''e.json'' zero_pattern = Inl (EmptyPattern ''e.json'')
   \<and> run_record double_quoted ''e.json'' False (Some ModeCharDevice) ''.'' zero_pattern
       = EmptyPattern ''e.json''"
  using no_pattern_aborts [of zero_pattern "''e.json''" double_quoted False "Some ModeCharDevice" "''.''"]
  by (simp add: zero_pattern_def)




text \<open>
  C6, as amended. In dump mode on the multi-pattern path with the default engine, the
  printed line is the engine name, then, joined by spaces, the flags, the \<open>-e\<close> pairs and
  the target path whenever it is non-empty; standard input is not consulted. The
  arguments printed are those of the real run when standard input is not a pipe.
\<close>

theorem dump_multi_pattern:
  assumes "Patterns pat \<noteq> []" and "operator_of pat = ''ugrep''"
  shows "run_record q filename True stdin files pat =
      Printed (''ugrep'' @ '' '' @
        strings_Join (Flags pat @ concat (map (\<lambda>p. [''-e'', p]) (Patterns pat))
          @ (if files \<noteq> [] then [files] else [])) '' '' @ [CHR 0x0A])
    \<and> (\<not> stdinIsPipe mode \<longrightarrow>
        run_record q filename False (Some mode) files pat =
          Executed ''ugrep'' (Flags pat @ concat (map (\<lambda>p. [''-e'', p]) (Patterns pat))
            @ (if files \<noteq> [] then [files] else [])))"
  using assms
  by (auto simp: run_record_def resolve_def synthesize_def command_args_def dump_line_def
      append_patterns_concat Let_def)

theorem dump_multi_pattern_witness:
  "Patterns \<lparr>Flags = [''-i''], Pattern = [], Patterns = [''foo'', ''bar''], Engine = []\<rparr> \<noteq> []
   \<and> operator_of \<lparr>Flags = [''-i''], Pattern = [], Patterns = [''foo'', ''bar''], Engine = []\<rparr> = ''ugrep''
   \<and> \<not> stdinIsPipe ModeCharDevice
   \<and> run_record double_quoted ''fb.json'' True None ''src''
        \<lparr>Flags = [''-i''], Pattern = [], Patterns = [''foo'', ''bar''], Engine = []\<rparr>
      = Printed (''ugrep -i -e foo -e bar src'' @ [CHR 0x0A])
   \<and> run_record double_quoted ''fb.json'' False (Some ModeCharDevice) ''src''
        \<lparr>Flags = [''-i''], Pattern = [], Patterns = [''foo'', ''bar''], Engine = []\<rparr>
      = Executed ''ugrep'' [''-i'', ''-e'', ''foo'', ''-e'', ''bar'', ''src'']"
  using dump_multi_pattern [of "\<lparr>Flags = [''-i''], Pattern = [], Patterns = [''foo'', ''bar''], Engine = []\<rparr>"
      double_quoted "''fb.json''" None "''src''" ModeCharDevice]
  by (simp add: operator_of_def stdinIsPipe_def ModeCharDevice_def)

text \<open>
  C6 as stated fails when standard input is a pipe (mode 0 has no character-device bit):
  the real run passes \<open>-e foo\<close> alone, and dump mode prints the target path after it.
\<close>

theorem dump_multi_pattern_piped_counterexample:
  "Patterns \<lparr>Flags = [], Pattern = [], Patterns = [''foo''], Engine = []\<rparr> \<noteq> []
   \<and> operator_of \<lparr>Flags = [], Pattern = [], Patterns = [''foo''], Engine = []\<rparr> = ''ugrep''
   \<and> stdinIsPipe 0
   \<and> run_record double_quoted ''f.json'' False (Some 0) ''.''
        \<lparr>Flags = [], Pattern = [], Patterns = [''foo''], Engine = []\<rparr>
      = Executed ''ugrep'' [''-e'', ''foo'']
   \<and> run_record double_quoted ''f.json'' True (Some 0) ''.''
        \<lparr>Flags = [], Pattern = [], Patterns = [''foo''], Engine = []\<rparr>
      = Printed (''ugrep -e foo .'' @ [CHR 0x0A])
   \<and> run_record double_quoted ''f.json'' True (Some 0) ''.''
        \<lparr>Flags = [], Pattern = [], Patterns = [''foo''], Engine = []\<rparr>
      \<noteq> Printed (''ugrep'' @ '' '' @ strings_Join [''-e'', ''foo''] '' '' @ [CHR 0x0A])"
  by (simp add: run_record_def resolve_def synthesize_def command_args_def dump_line_def
      operator_of_def append_patterns_def stdinIsPipe_def ModeCharDevice_def)

text \<open>
  C7. In dump mode on the single-pattern (or other-engine) path, the printed line is the
  engine name, the flags joined by spaces, the effective pattern as \<open>%q\<close> renders it and
  the target path as it is, whatever standard input is (also when its state cannot be
  read); with standard input a pipe, the real run of the same record passes no path.
\<close>

theorem dump_single_pattern:
  assumes "resolve filename pat = Inr pat'"
    and "\<not> (operator_of pat = ''ugrep'' \<and> Patterns pat \<noteq> [])"
  shows "run_record q filename True stdin files pat =
      Printed (operator_of pat @ '' '' @ strings_Join (Flags pat) '' '' @ '' '' @ q (Pattern pat')
        @ '' '' @ files @ [CHR 0x0A])
    \<and> (stdinIsPipe mode \<longrightarrow>
        run_record q filename False (Some mode) files pat =
          Executed (operator_of pat) (Flags pat @ [Pattern pat']))"
  using assms
  by (auto simp: run_record_def resolve_def synthesize_def command_args_def dump_line_def
      split: if_splits)

theorem dump_single_pattern_witness:
  "resolve ''t.json'' \<lparr>Flags = [''-H'', ''-n''], Pattern = ''TODO'', Patterns = [], Engine = []\<rparr>
     = Inr \<lparr>Flags = [''-H'', ''-n''], Pattern = ''TODO'', Patterns = [], Engine = []\<rparr>
   \<and> \<not> (operator_of \<lparr>Flags = [''-H'', ''-n''], Pattern = ''TODO'', Patterns = [], Engine = []\<rparr> = ''ugrep''
        \<and> Patterns \<lparr>Flags = [''-H'', ''-n''], Pattern = ''TODO'', Patterns = [], Engine = []\<rparr> \<noteq> [])
   \<and> stdinIsPipe 0
   \<and> run_record double_quoted ''t.json'' True (Some 0) ''./src''
        \<lparr>Flags = [''-H'', ''-n''], Pattern = ''TODO'', Patterns = [], Engine = []\<rparr>
      = Printed (''ugrep -H -n '' @ [CHR 0x22] @ ''TODO'' @ [CHR 0x22] @ '' ./src'' @ [CHR 0x0A])
   \<and> run_record double_quoted ''t.json'' False (Some 0) ''./src''
        \<lparr>Flags = [''-H'', ''-n''], Pattern = ''TODO'', Patterns = [], Engine = []\<rparr>
      = Executed ''ugrep'' [''-H'', ''-n'', ''TODO'']"
  using dump_single_pattern [of "''t.json''"
      "\<lparr>Flags = [''-H'', ''-n''], Pattern = ''TODO'', Patterns = [], Engine = []\<rparr>"
      "\<lparr>Flags = [''-H'', ''-n''], Pattern = ''TODO'', Patterns = [], Engine = []\<rparr>"
      double_quoted "Some 0" "''./src''" 0]
  by (simp add: resolve_def operator_of_def stdinIsPipe_def ModeCharDevice_def double_quoted_def)






text \<open>
  C10. A save with an empty name or an empty pattern string returns the error of line
  183 or of line 186 and leaves the host as it is, on every host: also on one where the
  store directory cannot be resolved, which a save with both arguments reports.
\<close>

theorem save_rejects_empty:
  assumes "name = [] \<or> pat = []"
  shows "savePattern L h name flags pat = (Some (if name = [] then NameEmpty else PatternEmpty), h)"
  using assms by (auto simp: savePattern_def)

theorem save_rejects_empty_witness:
  "savePattern sample_library homeless_host [] ''-Hnri'' ''TODO'' = (Some NameEmpty, homeless_host)
   \<and> savePattern sample_library homeless_host ''x'' ''-Hnri'' [] = (Some PatternEmpty, homeless_host)
   \<and> savePattern sample_library homeless_host ''x'' ''-Hnri'' ''TODO'' = (Some PatternDirUnknown, homeless_host)"
proof -
  have "savePattern sample_library homeless_host ''x'' ''-Hnri'' ''TODO''
      = (Some PatternDirUnknown, homeless_host)"
    by (simp add: savePattern_def getPatternDir_def homeless_host_def)
  with save_rejects_empty [of "[]" "''TODO''" sample_library homeless_host "''-Hnri''"]
    save_rejects_empty [of "''x''" "[]" sample_library homeless_host "''-Hnri''"]
  show ?thesis by simp
qed

end
